theory Spec2Isabelle
  imports Complex_Main "HOL-Library.AList" "HOL-Library.Multiset" "HOL-Library.Code_Target_Numeral"
begin

section \<open>Values of the option-chain service\<close>

text \<open>
  The service handles loosely typed JSON data: every upstream record is a Python
  dictionary from strings to arbitrary values. The embedding keeps that shape.

  A Python \<open>float\<close> is one of the special values \<open>inf\<close>, \<open>-inf\<close>, \<open>nan\<close>, or a finite
  number. Finite numbers are represented by the rational they denote: the rounding
  of binary64 operations, their overflow to infinity (and the \<open>OverflowError\<close> of
  converting an integer beyond the range of binary64) are not part of the model,
  and neither is the sign of zero. Python integers are unbounded and are \<open>int\<close>.
  Strings are lists of (ASCII) characters.
\<close>

datatype pyfloat = Fin rat | PInf | NInf | NaN

datatype pyval =
    PNone
  | PBool bool
  | PInt int
  | PFloat pyfloat
  | PStr string
  | PList "pyval list"
  | PDict "(string \<times> pyval) list"

text \<open>
  Exceptions. \<open>DateRangeError\<close> stands for the exception that \<open>datetime\<close> raises for an
  instant outside the years 1 to 9999 (\<open>ValueError\<close>, \<open>OverflowError\<close> or \<open>OSError\<close>,
  depending on the magnitude); \<open>UpstreamError\<close> for whatever a network fetch raises
  (its argument is the HTTP status, 0 for a transport failure).
\<close>

datatype pyerr =
    TypeError
  | ValueError
  | OverflowError
  | ZeroDivisionError
  | AttributeError
  | DateRangeError
  | UpstreamError nat

subsection \<open>Dictionaries\<close>

text \<open>
  A dictionary is an association list in insertion order. \<open>d.get(k)\<close> is \<open>dict_get d k\<close>
  with \<open>None\<close> for a missing key; \<open>d[k] = v\<close> replaces the value in place or appends the
  new key at the end, which is \<open>AList.update\<close>.
\<close>

definition dict_get :: "(string \<times> pyval) list \<Rightarrow> string \<Rightarrow> pyval" where
  "dict_get d k = (case map_of d k of None \<Rightarrow> PNone | Some v \<Rightarrow> v)"

definition dict_set :: "(string \<times> pyval) list \<Rightarrow> string \<Rightarrow> pyval \<Rightarrow> (string \<times> pyval) list" where
  "dict_set d k v = AList.update k v d"


subsection \<open>Floating-point operations\<close>

fun fneg :: "pyfloat \<Rightarrow> pyfloat" where
  "fneg (Fin x) = Fin (- x)"
| "fneg PInf = NInf"
| "fneg NInf = PInf"
| "fneg NaN = NaN"

fun fadd :: "pyfloat \<Rightarrow> pyfloat \<Rightarrow> pyfloat" where
  "fadd NaN _ = NaN"
| "fadd _ NaN = NaN"
| "fadd (Fin x) (Fin y) = Fin (x + y)"
| "fadd PInf NInf = NaN"
| "fadd NInf PInf = NaN"
| "fadd PInf _ = PInf"
| "fadd _ PInf = PInf"
| "fadd NInf _ = NInf"
| "fadd _ NInf = NInf"

definition fsub :: "pyfloat \<Rightarrow> pyfloat \<Rightarrow> pyfloat" where
  "fsub a b = fadd a (fneg b)"

fun fabs :: "pyfloat \<Rightarrow> pyfloat" where
  "fabs (Fin x) = Fin \<bar>x\<bar>"
| "fabs PInf = PInf"
| "fabs NInf = PInf"
| "fabs NaN = NaN"

text \<open>The sign of a float: \<open>1\<close>, \<open>-1\<close>, or \<open>0\<close> for zero and for \<open>nan\<close>.\<close>

fun fsgn :: "pyfloat \<Rightarrow> int" where
  "fsgn (Fin x) = (if x < 0 then - 1 else if x = 0 then 0 else 1)"
| "fsgn PInf = 1"
| "fsgn NInf = - 1"
| "fsgn NaN = 0"

definition signed_inf :: "int \<Rightarrow> pyfloat" where
  "signed_inf s = (if s < 0 then NInf else PInf)"

fun fmul :: "pyfloat \<Rightarrow> pyfloat \<Rightarrow> pyfloat" where
  "fmul NaN _ = NaN"
| "fmul _ NaN = NaN"
| "fmul (Fin x) (Fin y) = Fin (x * y)"
| "fmul a b = (if fsgn a * fsgn b = 0 then NaN else signed_inf (fsgn a * fsgn b))"

text \<open>Python's \<open>a / b\<close> on floats raises \<open>ZeroDivisionError\<close> for a zero divisor, also
  when \<open>a\<close> is infinite or \<open>nan\<close>.\<close>

fun fdiv :: "pyfloat \<Rightarrow> pyfloat \<Rightarrow> pyerr + pyfloat" where
  "fdiv a (Fin y) =
     (if y = 0 then Inl ZeroDivisionError
      else case a of
        Fin x \<Rightarrow> Inr (Fin (x / y))
      | NaN \<Rightarrow> Inr NaN
      | _ \<Rightarrow> Inr (signed_inf (fsgn a * fsgn (Fin y))))"
| "fdiv _ NaN = Inr NaN"
| "fdiv (Fin x) _ = Inr (Fin 0)"
| "fdiv _ _ = Inr NaN"

text \<open>Comparisons: every comparison with \<open>nan\<close> is false.\<close>

fun flt :: "pyfloat \<Rightarrow> pyfloat \<Rightarrow> bool" where
  "flt NaN _ = False"
| "flt _ NaN = False"
| "flt (Fin x) (Fin y) = (x < y)"
| "flt _ NInf = False"
| "flt NInf _ = True"
| "flt PInf _ = False"
| "flt _ PInf = True"

fun fle :: "pyfloat \<Rightarrow> pyfloat \<Rightarrow> bool" where
  "fle NaN _ = False"
| "fle _ NaN = False"
| "fle a b = (a = b \<or> flt a b)"

text \<open>
  \<open>round(x)\<close> rounds a finite float to the nearest integer, ties to the even one, and
  raises on the special values. \<open>round(x, 2)\<close> returns a float and passes the special
  values through.
\<close>

definition round_half_even :: "rat \<Rightarrow> int" where
  "round_half_even x =
     (let f = \<lfloor>x\<rfloor>; r = x - of_int f
      in if r < 1 / 2 then f else if 1 / 2 < r then f + 1 else if even f then f else f + 1)"

fun py_round :: "pyfloat \<Rightarrow> pyerr + int" where
  "py_round (Fin x) = Inr (round_half_even x)"
| "py_round NaN = Inl ValueError"
| "py_round _ = Inl OverflowError"

fun py_round_ndigits :: "pyfloat \<Rightarrow> nat \<Rightarrow> pyfloat" where
  "py_round_ndigits (Fin x) n = Fin (of_int (round_half_even (x * 10 ^ n)) / 10 ^ n)"
| "py_round_ndigits a n = a"

subsection \<open>Slices\<close>




subsection \<open>Strings and the conversion to float\<close>

text \<open>
  \<open>str.strip()\<close> removes the ASCII white space of \<open>str.isspace\<close>; the \<open>float\<close>
  constructor removes only the six characters of C's \<open>isspace\<close>.
\<close>

definition c_space :: "char \<Rightarrow> bool" where
  "c_space c = (c \<in> set [CHR 0x09, CHR 0x0A, CHR 0x0B, CHR 0x0C, CHR 0x0D, CHR 0x20])"

definition is_space :: "char \<Rightarrow> bool" where
  "is_space c = (c_space c \<or> c \<in> set [CHR 0x1C, CHR 0x1D, CHR 0x1E, CHR 0x1F])"

definition strip_by :: "(char \<Rightarrow> bool) \<Rightarrow> string \<Rightarrow> string" where
  "strip_by sp s = rev (dropWhile sp (rev (dropWhile sp s)))"

definition py_strip :: "string \<Rightarrow> string" where
  "py_strip s = strip_by is_space s"

definition is_digit :: "char \<Rightarrow> bool" where
  "is_digit c = (c \<in> set ''0123456789'')"

definition digit_val :: "char \<Rightarrow> nat" where
  "digit_val c = of_char c - 48"

definition digits_val :: "string \<Rightarrow> nat" where
  "digits_val ds = foldl (\<lambda>a c. 10 * a + digit_val c) 0 ds"

definition to_lower :: "char \<Rightarrow> char" where
  "to_lower c = (if c \<in> set ''ABCDEFGHIJKLMNOPQRSTUVWXYZ'' then char_of (of_char c + (32::nat)) else c)"

text \<open>An underscore in a numeric literal must stand between two digits; the first
  argument is the character before.\<close>

fun strip_underscores :: "char \<Rightarrow> string \<Rightarrow> string option" where
  "strip_underscores prev [] = (if prev = CHR ''_'' then None else Some [])"
| "strip_underscores prev (c # cs) =
     (if c = CHR ''_'' then (if is_digit prev then strip_underscores c cs else None)
      else if prev = CHR ''_'' \<and> \<not> is_digit c then None
      else map_option ((#) c) (strip_underscores c cs))"

definition split_sign :: "string \<Rightarrow> bool \<times> string" where
  "split_sign s =
     (case s of
        [] \<Rightarrow> (False, [])
      | c # cs \<Rightarrow> if c = CHR ''-'' then (True, cs) else if c = CHR ''+'' then (False, cs) else (False, s))"

text \<open>An unsigned decimal literal: digits, an optional fraction, an optional exponent,
  with at least one digit before the exponent.\<close>

definition parse_decimal :: "string \<Rightarrow> rat option" where
  "parse_decimal s =
     (let ip = takeWhile is_digit s;
          r1 = dropWhile is_digit s;
          fp = (case r1 of [] \<Rightarrow> [] | c # cs \<Rightarrow> if c = CHR ''.'' then takeWhile is_digit cs else []);
          r2 = (case r1 of [] \<Rightarrow> [] | c # cs \<Rightarrow> if c = CHR ''.'' then dropWhile is_digit cs else r1)
      in if ip = [] \<and> fp = [] then None
         else
           let m = of_nat (digits_val (ip @ fp)) / 10 ^ length fp
           in case r2 of
                [] \<Rightarrow> Some m
              | c # cs \<Rightarrow>
                  if c = CHR ''e'' \<or> c = CHR ''E'' then
                    (case split_sign cs of
                       (neg, ds) \<Rightarrow>
                         if ds \<noteq> [] \<and> list_all is_digit ds
                         then Some (if neg then m / 10 ^ digits_val ds else m * 10 ^ digits_val ds)
                         else None)
                  else None)"

definition float_of_string :: "string \<Rightarrow> pyfloat option" where
  "float_of_string s =
     (case strip_underscores (CHR 0x00) s of
        None \<Rightarrow> None
      | Some t \<Rightarrow>
          (case split_sign (strip_by c_space t) of
             (neg, body) \<Rightarrow>
               if map to_lower body = ''inf'' \<or> map to_lower body = ''infinity''
               then Some (if neg then NInf else PInf)
               else if map to_lower body = ''nan'' then Some NaN
               else map_option (\<lambda>q. Fin (if neg then - q else q)) (parse_decimal body)))"

text \<open>\<open>float(value)\<close>: \<open>TypeError\<close> for a value that is neither a number nor a string,
  \<open>ValueError\<close> for a string that is not a float literal.\<close>

fun py_float :: "pyval \<Rightarrow> pyerr + pyfloat" where
  "py_float PNone = Inl TypeError"
| "py_float (PBool b) = Inr (Fin (if b then 1 else 0))"
| "py_float (PInt n) = Inr (Fin (of_int n))"
| "py_float (PFloat f) = Inr f"
| "py_float (PStr s) = (case float_of_string s of None \<Rightarrow> Inl ValueError | Some f \<Rightarrow> Inr f)"
| "py_float (PList _) = Inl TypeError"
| "py_float (PDict _) = Inl TypeError"

section \<open>Sorting by strike\<close>





section \<open>The window around the money\<close>




section \<open>The underlying price\<close>




section \<open>Pagination\<close>


section \<open>The request pipeline\<close>



section \<open>The output projection\<close>

text \<open>
  \<open>to_output_rows\<close> first trims a row to the output columns, with the empty string for
  a missing column, and then renames the columns to the output headers. Both
  dictionaries are built by comprehensions, key by key.
\<close>

definition OUTPUT_COLUMNS :: "string list" where
  "OUTPUT_COLUMNS =
     [''CE_OpenInterest'', ''CE_ChangeInOI'', ''CE_Volume'', ''CE_AbsoluteChange'', ''CE_BidQty'',
      ''CE_BidPrice'', ''CE_AskPrice'', ''CE_AskQty'', ''CE_LTP'', ''CE_PrevClose'', ''CE_PctChange'',
      ''CE_StrikePrice'', ''PE_LTP'', ''PE_PrevClose'', ''PE_PctChange'', ''PE_BidQty'',
      ''PE_BidPrice'', ''PE_AskPrice'', ''PE_AskQty'', ''PE_AbsoluteChange'', ''PE_Volume'',
      ''PE_ChangeInOI'', ''PE_OpenInterest'']"

definition OUTPUT_HEADERS :: "string list" where
  "OUTPUT_HEADERS =
     [''CALL_OI_Lots'', ''CALL_Chng_in_OI'', ''CALL_Volume'', ''CALL_Abs_Chng'', ''CALL_Bid_Qty'',
      ''CALL_Bid_Price'', ''CALL_Ask_Price'', ''CALL_Ask_Qty'', ''CALL_LTP'', ''CALL_Prev_Close'',
      ''CALL_Pct_Chng'', ''Strike_Price'', ''PUT_LTP'', ''PUT_Prev_Close'', ''PUT_Pct_Chng'',
      ''PUT_Bid_Qty'', ''PUT_Bid_Price'', ''PUT_Ask_Price'', ''PUT_Ask_Qty'', ''PUT_Abs_Chng'',
      ''PUT_Volume'', ''PUT_Chng_in_OI'', ''PUT_OI_Lots'']"

text \<open>\<open>d.get(k, default)\<close>.\<close>

definition dict_get_or :: "(string \<times> pyval) list \<Rightarrow> string \<Rightarrow> pyval \<Rightarrow> pyval" where
  "dict_get_or d k dflt = (case map_of d k of None \<Rightarrow> dflt | Some v \<Rightarrow> v)"

definition to_output_row :: "(string \<times> pyval) list \<Rightarrow> (string \<times> pyval) list" where
  "to_output_row row =
     (let trimmed = foldl (\<lambda>acc key. dict_set acc key (dict_get_or row key (PStr ''''))) [] OUTPUT_COLUMNS
      in foldl (\<lambda>acc i. dict_set acc (OUTPUT_HEADERS ! i)
                          (dict_get_or trimmed (OUTPUT_COLUMNS ! i) (PStr '''')))
           [] [0..<length OUTPUT_COLUMNS])"

fun to_output_rows :: "pyval list \<Rightarrow> pyerr + (string \<times> pyval) list list" where
  "to_output_rows [] = Inr []"
| "to_output_rows (row # rows) =
     (case row of
        PDict d \<Rightarrow> map_sum id ((#) (to_output_row d)) (to_output_rows rows)
      | _ \<Rightarrow> Inl AttributeError)"

section \<open>Round strikes\<close>

text \<open>
  Only \<open>TypeError\<close> and \<open>ValueError\<close> of the conversion are caught; what \<open>round\<close> raises
  on a special value propagates. The division cannot raise, the divisor being
  positive or \<open>nan\<close> where it is reached.
\<close>

definition is_round_strike :: "pyval \<Rightarrow> pyfloat \<Rightarrow> pyerr + bool" where
  "is_round_strike value step =
     (case py_float value of
        Inl _ \<Rightarrow> Inr False
      | Inr strike \<Rightarrow>
          if fle step (Fin 0) then Inr True
          else
            (case fdiv strike step of
               Inl e \<Rightarrow> Inl e
             | Inr q \<Rightarrow>
                 (case py_round q of
                    Inl e \<Rightarrow> Inl e
                  | Inr n \<Rightarrow> Inr (flt (fabs (fsub q (Fin (of_int n)))) (Fin (1 / 1000000))))))"

section \<open>Derived fields\<close>

text \<open>
  \<open>to_float\<close> is the numeric coercion of the derived-field engine: unlike \<open>float\<close> it
  maps \<open>None\<close> and unusable values to \<open>None\<close> instead of raising, and it removes the
  commas of a string before the conversion. \<open>bool\<close> is a subclass of \<open>int\<close>.
\<close>

fun to_float :: "pyval \<Rightarrow> pyfloat option" where
  "to_float PNone = None"
| "to_float (PBool b) = Some (Fin (if b then 1 else 0))"
| "to_float (PInt n) = Some (Fin (of_int n))"
| "to_float (PFloat f) = Some f"
| "to_float (PStr s) =
     (let cleaned = py_strip s
      in if cleaned = [] then None
         else float_of_string (filter (\<lambda>c. c \<noteq> CHR '','') cleaned))"
| "to_float (PList _) = None"
| "to_float (PDict _) = None"

definition format_number :: "pyfloat option \<Rightarrow> nat \<Rightarrow> pyval" where
  "format_number value decimals =
     (case value of None \<Rightarrow> PStr '''' | Some v \<Rightarrow> PFloat (py_round_ndigits v decimals))"

definition prev_close_keys :: "string \<Rightarrow> string list" where
  "prev_close_keys prefix =
     [prefix @ ''_PrevClose'', prefix @ ''_PreviousClose'',
      prefix @ ''_PrevClosePrice'', prefix @ ''_PreviousClosePrice'']"

fun first_float :: "(string \<times> pyval) list \<Rightarrow> string list \<Rightarrow> pyfloat option" where
  "first_float row [] = None"
| "first_float row (key # keys) =
     (case to_float (dict_get row key) of
        Some parsed \<Rightarrow> Some parsed
      | None \<Rightarrow> first_float row keys)"

definition get_prev_close_value :: "(string \<times> pyval) list \<Rightarrow> string \<Rightarrow> pyfloat option" where
  "get_prev_close_value row prefix = first_float row (prev_close_keys prefix)"

text \<open>
  \<open>add_change_fields\<close> mutates the row; the model returns the new row. The test
  \<open>prev_close not in (None, 0)\<close> compares with \<open>==\<close>, so it lets \<open>nan\<close> and the infinities
  through and stops zero.
\<close>

definition percent_of :: "pyfloat \<Rightarrow> pyfloat \<Rightarrow> pyerr + pyfloat" where
  "percent_of num den =
     (case fdiv num den of Inl e \<Rightarrow> Inl e | Inr q \<Rightarrow> Inr (fmul q (Fin 100)))"

definition add_change_fields ::
  "(string \<times> pyval) list \<Rightarrow> string \<Rightarrow> pyerr + (string \<times> pyval) list" where
  "add_change_fields row prefix =
     (let ltp = to_float (dict_get row (prefix @ ''_LTP''));
          abs_chg = to_float (dict_get row (prefix @ ''_AbsoluteChange''));
          prev_close0 = get_prev_close_value row prefix;
          prev_close =
            (case (prev_close0, ltp, abs_chg) of
               (None, Some l, Some a) \<Rightarrow> Some (fsub l a)
             | _ \<Rightarrow> prev_close0);
          pct_change =
            (case prev_close of
               None \<Rightarrow> Inr None
             | Some pc \<Rightarrow>
                 if pc = Fin 0 then Inr None
                 else
                   (case abs_chg of
                      Some a \<Rightarrow> map_sum id Some (percent_of a pc)
                    | None \<Rightarrow>
                        (case ltp of
                           Some l \<Rightarrow> map_sum id Some (percent_of (fsub l pc) pc)
                         | None \<Rightarrow> Inr None)))
      in case pct_change of
           Inl e \<Rightarrow> Inl e
         | Inr pct \<Rightarrow>
             Inr (dict_set
                    (dict_set row (prefix @ ''_PrevClose'') (format_number prev_close 2))
                    (prefix @ ''_PctChange'') (format_number pct 2)))"

text \<open>\<open>add_derived_fields\<close> skips the rows that are not dictionaries.\<close>

fun add_derived_fields :: "pyval list \<Rightarrow> pyerr + pyval list" where
  "add_derived_fields [] = Inr []"
| "add_derived_fields (row # rows) =
     (case row of
        PDict d \<Rightarrow>
          (case add_change_fields d ''CE'' of
             Inl e \<Rightarrow> Inl e
           | Inr d1 \<Rightarrow>
               (case add_change_fields d1 ''PE'' of
                  Inl e \<Rightarrow> Inl e
                | Inr d2 \<Rightarrow> map_sum id ((#) (PDict d2)) (add_derived_fields rows)))
      | _ \<Rightarrow> map_sum id ((#) row) (add_derived_fields rows))"

section \<open>The sentinel date encoding\<close>

text \<open>
  The pattern is \<open>^/Date\(([-+]?\d+)([+-]\d{4})?\)/$\<close>, matched from the start of the
  string; \<open>$\<close> also matches before a final newline. The digits are taken greedily and
  nothing else can follow them but the offset or the closing parenthesis, so the
  match is found without backtracking. The result is the pair of the two groups.
\<close>

definition is_sign :: "char \<Rightarrow> bool" where
  "is_sign c = (c = CHR ''+'' \<or> c = CHR ''-'')"

definition match_date :: "string \<Rightarrow> (string \<times> string option) option" where
  "match_date value =
     (if take 6 value \<noteq> ''/Date('' then None
      else
        let r0 = drop 6 value;
            sgn = (case r0 of [] \<Rightarrow> [] | c # _ \<Rightarrow> if is_sign c then [c] else []);
            r1 = drop (length sgn) r0;
            ds = takeWhile is_digit r1;
            r2 = dropWhile is_digit r1;
            has_offset = (case r2 of
                            [] \<Rightarrow> False
                          | c # cs \<Rightarrow> is_sign c \<and> length (take 4 cs) = 4 \<and> list_all is_digit (take 4 cs));
            r3 = (if has_offset then drop 5 r2 else r2)
        in if ds = [] then None
           else if r3 = '')/'' \<or> r3 = '')/'' @ [CHR 0x0A]
           then Some (sgn @ ds, if has_offset then Some (take 5 r2) else None)
           else None)"

text \<open>\<open>int\<close> of an optional sign and decimal digits.\<close>

definition py_int :: "string \<Rightarrow> int" where
  "py_int s = (case split_sign s of (neg, ds) \<Rightarrow> if neg then - int (digits_val ds) else int (digits_val ds))"

subsection \<open>Calendar arithmetic of \<open>datetime\<close>\<close>

text \<open>
  \<open>ord2ymd\<close> is \<open>_ord2ymd\<close> of the \<open>datetime\<close> module: the proleptic Gregorian date of
  the day with the given ordinal, where 1 January of year 1 has ordinal 1. The
  ordinal of 1 January 1970 is 719163, and the last second of year 9999 is
  253402300799 seconds after the epoch.
\<close>

definition days_before_month :: "nat \<Rightarrow> nat" where
  "days_before_month m = [0, 0, 31, 59, 90, 120, 151, 181, 212, 243, 273, 304, 334] ! m"

definition days_in_month :: "nat \<Rightarrow> nat" where
  "days_in_month m = [0, 31, 28, 31, 30, 31, 30, 31, 31, 30, 31, 30, 31] ! m"

definition ord2ymd :: "nat \<Rightarrow> nat \<times> nat \<times> nat" where
  "ord2ymd ordinal =
     (let n = ordinal - 1;
          n400 = n div 146097; na = n mod 146097;
          n100 = na div 36524; nb = na mod 36524;
          n4 = nb div 1461; nc = nb mod 1461;
          n1 = nc div 365; nd = nc mod 365;
          year = n400 * 400 + 1 + n100 * 100 + n4 * 4 + n1
      in if n1 = 4 \<or> n100 = 4 then (year - 1, 12, 31)
         else
           let leapyear = (n1 = 3 \<and> (n4 \<noteq> 24 \<or> n100 = 3));
               month = (nd + 50) div 32;
               preceding = days_before_month month + (if month > 2 \<and> leapyear then 1 else 0)
           in if preceding > nd
              then (year, month - 1,
                    nd - (preceding - (days_in_month (month - 1)
                                        + (if month - 1 = 2 \<and> leapyear then 1 else 0))) + 1)
              else (year, month, nd - preceding + 1))"

definition max_seconds :: int where
  "max_seconds = 253402300799"

definition digit_char :: "nat \<Rightarrow> char" where
  "digit_char n = char_of (48 + n mod 10)"

definition pad2 :: "nat \<Rightarrow> string" where
  "pad2 n = [digit_char (n div 10), digit_char n]"

definition pad4 :: "nat \<Rightarrow> string" where
  "pad4 n = [digit_char (n div 1000), digit_char (n div 100), digit_char (n div 10), digit_char n]"

text \<open>
  \<open>isoformat(sep=' ', timespec='seconds')\<close> of an aware \<open>datetime\<close>: the local date and
  time, then the offset of its zone from UTC as \<open>+HH:MM\<close> or \<open>-HH:MM\<close>. The first
  argument is the local time in seconds since the epoch, the second the offset in
  minutes.
\<close>

definition format_datetime :: "int \<Rightarrow> string" where
  "format_datetime local =
     (case ord2ymd (nat (719163 + local div 86400)) of
        (y, m, d) \<Rightarrow>
          let sod = nat (local mod 86400)
          in pad4 y @ ''-'' @ pad2 m @ ''-'' @ pad2 d @ '' ''
             @ pad2 (sod div 3600) @ '':'' @ pad2 (sod mod 3600 div 60) @ '':'' @ pad2 (sod mod 60))"

definition format_offset :: "int \<Rightarrow> string" where
  "format_offset off =
     (if off < 0 then ''-'' else ''+'') @ pad2 (nat \<bar>off\<bar> div 60) @ '':'' @ pad2 (nat \<bar>off\<bar> mod 60)"

text \<open>
  \<open>astimezone\<close> raises when the local time leaves the range of \<open>datetime\<close>; with a
  positive time stamp only the upper end can be reached.
\<close>

definition astimezone_iso :: "int \<Rightarrow> int \<Rightarrow> pyerr + string" where
  "astimezone_iso secs off =
     (if secs + 60 * off > max_seconds then Inl DateRangeError
      else Inr (format_datetime (secs + 60 * off) @ format_offset off))"

text \<open>
  \<open>parse_dotnet_date\<close>. \<open>fromtimestamp(ms / 1000, tz=utc)\<close> raises beyond the year 9999;
  below, the whole seconds of the instant are \<open>ms div 1000\<close> (the fraction is dropped
  by \<open>timespec='seconds'\<close>). \<open>timezone(offset)\<close> raises \<open>ValueError\<close> unless the offset
  is strictly between minus and plus 24 hours. Without an offset the zone is \<open>IST\<close>,
  330 minutes east.
\<close>

definition parse_dotnet_date :: "string \<Rightarrow> pyerr + string" where
  "parse_dotnet_date value =
     (case match_date value of
        None \<Rightarrow> Inr value
      | Some (g1, g2) \<Rightarrow>
          let ms = py_int g1
          in if ms \<le> 0 then Inr ''''
             else if ms div 1000 > max_seconds then Inl DateRangeError
             else
               (case g2 of
                  Some offset_str \<Rightarrow>
                    let sign = (if hd offset_str = CHR ''+'' then 1 else - 1);
                        hours = py_int (take 2 (drop 1 offset_str));
                        minutes = py_int (take 2 (drop 3 offset_str));
                        off = sign * (hours * 60 + minutes)
                    in if \<bar>off\<bar> \<ge> 1440 then Inl ValueError
                       else astimezone_iso (ms div 1000) off
                | None \<Rightarrow> astimezone_iso (ms div 1000) 330))"

section \<open>Normalising the rows of exchange A\<close>

text \<open>
  Each value of a dictionary row: \<open>None\<close> becomes the empty string, a string is
  stripped and passed through \<open>parse_dotnet_date\<close>, anything else is kept. The new row
  is filled key by key. Rows that are not dictionaries are dropped.
\<close>

definition normalize_value :: "pyval \<Rightarrow> pyerr + pyval" where
  "normalize_value val =
     (case (if val = PNone then PStr '''' else val) of
        PStr s \<Rightarrow> map_sum id PStr (parse_dotnet_date (py_strip s))
      | v \<Rightarrow> Inr v)"

fun normalize_items ::
  "(string \<times> pyval) list \<Rightarrow> (string \<times> pyval) list \<Rightarrow> pyerr + (string \<times> pyval) list" where
  "normalize_items new_row [] = Inr new_row"
| "normalize_items new_row ((key, val) # items) =
     (case normalize_value val of
        Inl e \<Rightarrow> Inl e
      | Inr v \<Rightarrow> normalize_items (dict_set new_row key v) items)"

fun normalize_rows :: "pyval list \<Rightarrow> pyerr + pyval list" where
  "normalize_rows [] = Inr []"
| "normalize_rows (row # rows) =
     (case row of
        PDict d \<Rightarrow>
          (case normalize_items [] d of
             Inl e \<Rightarrow> Inl e
           | Inr new_row \<Rightarrow> map_sum id ((#) (PDict new_row)) (normalize_rows rows))
      | _ \<Rightarrow> normalize_rows rows)"

section \<open>The freshness cache of option-chain rows\<close>

text \<open>
  \<open>CACHE\<close> is a process-wide dictionary from key strings to entries with the fields
  \<open>rows\<close> and \<open>fetched_at\<close>. The state of the model is that dictionary together with
  the log of the upstream fetches issued so far, which is what makes an upstream
  call observable.

  The two fetchers talk to the network and are parameters of the model: each is a
  function of the fetch history and the clock (so that the upstream may answer
  differently every time) that returns rows or raises. \<open>fetch_mcx_option_chain\<close>
  returns whatever list the payload holds; \<open>fetch_nse_option_chain\<close> builds every row
  as a dictionary literal. The other parameters are the configured time to live,
  and the text that an f-string gives for a float, which enters the key.
\<close>

record cache_entry =
  cached_rows :: "pyval list"
  fetched_at :: rat

datatype fetch_call =
    McxFetch string "string option"
  | NseFetch string "string option" bool

record world =
  CACHE :: "string \<rightharpoonup> cache_entry"
  fetch_log :: "fetch_call list"

record env =
  CACHE_TTL_SECONDS :: int
  float_repr :: "pyfloat \<Rightarrow> string"
  fetch_mcx_option_chain :: "fetch_call list \<Rightarrow> rat \<Rightarrow> string \<Rightarrow> string option \<Rightarrow> pyerr + pyval list"
  fetch_nse_option_chain ::
    "fetch_call list \<Rightarrow> rat \<Rightarrow> string \<Rightarrow> string option \<Rightarrow> bool \<Rightarrow> pyerr + (string \<times> pyval) list list"

definition cache_key ::
  "env \<Rightarrow> string \<Rightarrow> string \<Rightarrow> string option \<Rightarrow> pyfloat \<Rightarrow> bool \<Rightarrow> string" where
  "cache_key e source symbol expiry strike_step all_strikes =
     source @ '':'' @ symbol @ '':'' @ (case expiry of None \<Rightarrow> '''' | Some x \<Rightarrow> x) @ '':''
       @ float_repr e strike_step @ '':'' @ (if all_strikes then ''True'' else ''False'')"

text \<open>The comprehension that keeps the round strikes: \<open>row.get\<close> needs a dictionary,
  and the first exception of \<open>is_round_strike\<close> ends the loop.\<close>

fun keep_round_strikes :: "pyval list \<Rightarrow> pyfloat \<Rightarrow> pyerr + pyval list" where
  "keep_round_strikes [] step = Inr []"
| "keep_round_strikes (row # rows) step =
     (case row of
        PDict d \<Rightarrow>
          (case is_round_strike (dict_get d ''CE_StrikePrice'') step of
             Inl e \<Rightarrow> Inl e
           | Inr keep \<Rightarrow>
               map_sum id (\<lambda>kept. if keep then row # kept else kept) (keep_round_strikes rows step))
      | _ \<Rightarrow> Inl AttributeError)"

text \<open>The live entry that a call may answer from: none when \<open>force\<close> is set.\<close>

definition live_entry :: "env \<Rightarrow> world \<Rightarrow> rat \<Rightarrow> string \<Rightarrow> bool \<Rightarrow> cache_entry option" where
  "live_entry e w now key force =
     (if force then None
      else
        (case CACHE w key of
           None \<Rightarrow> None
         | Some entry \<Rightarrow>
             if now - fetched_at entry < of_int (CACHE_TTL_SECONDS e) then Some entry else None))"

text \<open>The fetch of a miss: the rows of the source, normalised for \<open>mcx\<close>, and the state
  with the call logged. Any other source has no rows and no fetch.\<close>

definition fetch_source ::
  "env \<Rightarrow> world \<Rightarrow> rat \<Rightarrow> string \<Rightarrow> string \<Rightarrow> string option \<Rightarrow> bool \<Rightarrow> (pyerr + pyval list) \<times> world" where
  "fetch_source e w now source symbol expiry force =
     (if source = ''mcx'' then
        ((case fetch_mcx_option_chain e (fetch_log w) now symbol expiry of
            Inl err \<Rightarrow> Inl err
          | Inr rows \<Rightarrow> normalize_rows rows),
         w\<lparr>fetch_log := fetch_log w @ [McxFetch symbol expiry]\<rparr>)
      else if source = ''nse'' then
        (map_sum id (map PDict) (fetch_nse_option_chain e (fetch_log w) now symbol expiry force),
         w\<lparr>fetch_log := fetch_log w @ [NseFetch symbol expiry force]\<rparr>)
      else (Inr [], w))"

definition get_cached_rows ::
  "env \<Rightarrow> world \<Rightarrow> rat \<Rightarrow> string \<Rightarrow> string \<Rightarrow> string option \<Rightarrow> pyfloat \<Rightarrow> bool \<Rightarrow> bool
   \<Rightarrow> (pyerr + pyval list \<times> rat) \<times> world" where
  "get_cached_rows e w now source symbol expiry strike_step all_strikes force =
     (let key = cache_key e source symbol expiry strike_step all_strikes
      in case live_entry e w now key force of
           Some entry \<Rightarrow> (Inr (cached_rows entry, fetched_at entry), w)
         | None \<Rightarrow>
             (case fetch_source e w now source symbol expiry force of
                (Inl err, w1) \<Rightarrow> (Inl err, w1)
              | (Inr rows0, w1) \<Rightarrow>
                  (case add_derived_fields rows0 of
                     Inl err \<Rightarrow> (Inl err, w1)
                   | Inr rows1 \<Rightarrow>
                       (case (if all_strikes then Inr rows1 else keep_round_strikes rows1 strike_step) of
                          Inl err \<Rightarrow> (Inl err, w1)
                        | Inr rows2 \<Rightarrow>
                            (Inr (rows2, now),
                             w1\<lparr>CACHE := (CACHE w1)(key \<mapsto> \<lparr>cached_rows = rows2, fetched_at = now\<rparr>)\<rparr>)))))"

section \<open>Notions of the specification\<close>





text \<open>
  The sentinel encoding as the specification writes it: \<open>/Date(\<close>, the milliseconds
  (an optional sign and digits), an optional offset (a sign and four digits), \<open>)/\<close>.
  \<open>offset_minutes\<close> is the zone that the encoding selects, in minutes east of UTC.
\<close>

definition is_millis :: "string \<Rightarrow> bool" where
  "is_millis s = (case split_sign s of (_, ds) \<Rightarrow> ds \<noteq> [] \<and> list_all is_digit ds)"

definition is_offset :: "string \<Rightarrow> bool" where
  "is_offset s = (length s = 5 \<and> is_sign (hd s) \<and> list_all is_digit (tl s))"

definition date_encoding :: "string \<Rightarrow> string option \<Rightarrow> string" where
  "date_encoding millis off =
     ''/Date('' @ millis @ (case off of None \<Rightarrow> [] | Some s \<Rightarrow> s) @ '')/''"

definition offset_minutes :: "string option \<Rightarrow> int" where
  "offset_minutes g2 =
     (case g2 of
        None \<Rightarrow> 330
      | Some s \<Rightarrow>
          (if hd s = CHR ''+'' then 1 else - 1)
            * (py_int (take 2 (drop 1 s)) * 60 + py_int (take 2 (drop 3 s))))"


definition is_live :: "env \<Rightarrow> rat \<Rightarrow> cache_entry \<Rightarrow> bool" where
  "is_live e now entry = (now - fetched_at entry < of_int (CACHE_TTL_SECONDS e))"

text \<open>
  A derived field in its canonical form: the empty string, or a float that is its
  own rounding to 2 decimals. A row is canonical when it is a dictionary that
  carries the four derived fields in that form; a missing key reads as \<open>None\<close>, which
  is not canonical.
\<close>








section \<open>Example data\<close>

text \<open>A row that carries nothing but a strike.\<close>

definition strike_row :: "pyval \<Rightarrow> pyval" where
  "strike_row v = PDict [(''CE_StrikePrice'', v)]"

text \<open>An upstream and a state.\<close>

definition example_env :: env where
  "example_env =
     \<lparr>CACHE_TTL_SECONDS = 600,
      float_repr = (\<lambda>f. if f = Fin 5000 then ''5000.0'' else ''0.0''),
      fetch_mcx_option_chain =
        (\<lambda>log now symbol expiry.
           if symbol = ''GOLD'' \<and> now < 5000
           then Inr [PDict [(''CE_StrikePrice'', PInt 10000), (''CE_LTP'', PStr '' 105 ''),
                            (''CE_AbsoluteChange'', PInt 5)],
                     PInt 7]
           else if symbol = ''SILVER'' then Inr [strike_row (PFloat PInf)]
           else Inl (UpstreamError 503)),
      fetch_nse_option_chain = (\<lambda>log now symbol expiry force. Inl (UpstreamError 403))\<rparr>"

definition empty_world :: world where
  "empty_world = \<lparr>CACHE = Map.empty, fetch_log = []\<rparr>"

text \<open>The rows that the example upstream serves for \<open>GOLD\<close>, as the cache stores them,
  and the state after a first call for them at time 1000.\<close>

definition gold_rows :: "pyval list" where
  "gold_rows =
     [PDict [(''CE_StrikePrice'', PInt 10000), (''CE_LTP'', PStr ''105''),
             (''CE_AbsoluteChange'', PInt 5), (''CE_PrevClose'', PFloat (Fin 100)),
             (''CE_PctChange'', PFloat (Fin 5)), (''PE_PrevClose'', PStr ''''),
             (''PE_PctChange'', PStr '''')]]"

definition gold_key :: string where
  "gold_key = cache_key example_env ''mcx'' ''GOLD'' None (Fin 5000) False"

definition gold_world :: world where
  "gold_world =
     snd (get_cached_rows example_env empty_world 1000 ''mcx'' ''GOLD'' None (Fin 5000) False False)"

section \<open>Verified properties\<close>

subsection \<open>Slices with bounds that are not negative\<close>




subsection \<open>Pagination\<close>






subsection \<open>The order of floats\<close>

lemma flt_irrefl [simp]: "\<not> flt a a"
  by (cases a) auto







lemma flt_PInf_left [simp]: "\<not> flt PInf b"
  by (cases b) auto

lemma flt_not_NaN: "flt a b \<Longrightarrow> a \<noteq> NaN \<and> b \<noteq> NaN"
  by (cases a; cases b) auto

subsection \<open>Evaluating float literals\<close>




subsection \<open>Sorting by strike\<close>

















subsection \<open>The window around the money\<close>









subsection \<open>The underlying price\<close>







subsection \<open>Round strikes\<close>

lemma floor_rat_numeral_div [simp]:
  "\<lfloor>numeral a / numeral b :: rat\<rfloor> = numeral a div numeral b"
  using floor_divide_of_int_eq [of "numeral a" "numeral b", where ?'a = rat] by simp

lemma floor_rat_neg_numeral_div [simp]:
  "\<lfloor>- (numeral a / numeral b) :: rat\<rfloor> = - numeral a div numeral b"
  using floor_divide_of_int_eq [of "- numeral a" "numeral b", where ?'a = rat] by simp








subsection \<open>Derived fields\<close>














subsection \<open>The sentinel date encoding\<close>

lemma is_digit_not_sign: "is_sign c \<Longrightarrow> \<not> is_digit c"
  by (auto simp: is_sign_def is_digit_def)

lemma takeWhile_digits:
  "list_all is_digit ds \<Longrightarrow> \<not> is_digit c \<Longrightarrow> takeWhile is_digit (ds @ c # rest) = ds"
  by (induction ds) auto

lemma dropWhile_digits:
  "list_all is_digit ds \<Longrightarrow> \<not> is_digit c \<Longrightarrow> dropWhile is_digit (ds @ c # rest) = c # rest"
  by (induction ds) auto

lemma is_millis_cases:
  assumes "is_millis m"
  obtains sg ds where "m = sg @ ds" "ds \<noteq> []" "list_all is_digit ds"
    "sg = [] \<or> sg = ''+'' \<or> sg = ''-''"
proof (cases m)
  case Nil
  with assms show ?thesis by (simp add: is_millis_def split_sign_def)
next
  case (Cons c cs)
  show ?thesis
  proof (cases "c = CHR ''-'' \<or> c = CHR ''+''")
    case True
    with assms Cons have "cs \<noteq> []" "list_all is_digit cs"
      by (auto simp: is_millis_def split_sign_def split: if_splits)
    with True Cons that [of "[c]" cs] show ?thesis by auto
  next
    case False
    with assms Cons have "list_all is_digit m"
      by (auto simp: is_millis_def split_sign_def)
    with Cons that [of "[]" m] show ?thesis by auto
  qed
qed

lemma match_date_plain:
  assumes "ds \<noteq> []" "list_all is_digit ds" "sg = [] \<or> sg = ''+'' \<or> sg = ''-''"
  shows "match_date (''/Date('' @ sg @ ds @ '')/'') = Some (sg @ ds, None)"
proof -
  obtain d ds' where ds: "ds = d # ds'" using assms(1) by (cases ds) auto
  have d: "is_digit d" "\<not> is_sign d" using assms(2) ds is_digit_not_sign by auto
  have nd: "\<not> is_digit (CHR '')'')" by (simp add: is_digit_def)
  have tw: "takeWhile is_digit (ds @ '')/'') = ds" "dropWhile is_digit (ds @ '')/'') = '')/''"
    using takeWhile_digits [OF assms(2) nd, of "''/''"] dropWhile_digits [OF assms(2) nd, of "''/''"]
    by simp_all
  from assms(3) show ?thesis
    by (elim disjE) (use tw d ds assms(1) in \<open>auto simp: match_date_def is_sign_def Let_def\<close>)
qed

lemma is_offset_cases:
  assumes "is_offset s"
  obtains c o4 where "s = c # o4" "is_sign c" "length o4 = 4" "list_all is_digit o4"
  using assms by (cases s) (auto simp: is_offset_def)

lemma match_date_offset:
  assumes "ds \<noteq> []" "list_all is_digit ds" "sg = [] \<or> sg = ''+'' \<or> sg = ''-''"
    "is_sign c" "length o4 = 4" "list_all is_digit o4"
  shows "match_date (''/Date('' @ sg @ ds @ (c # o4) @ '')/'') = Some (sg @ ds, Some (c # o4))"
proof -
  obtain d ds' where ds: "ds = d # ds'" using assms(1) by (cases ds) auto
  have d: "is_digit d" "\<not> is_sign d" using assms(2) ds is_digit_not_sign by auto
  have nd: "\<not> is_digit c" using assms(4) by (simp add: is_digit_not_sign)
  have tw: "takeWhile is_digit (ds @ c # o4 @ '')/'') = ds"
    "dropWhile is_digit (ds @ c # o4 @ '')/'') = c # o4 @ '')/''"
    using takeWhile_digits [OF assms(2) nd] dropWhile_digits [OF assms(2) nd] by simp_all
  from assms(3) show ?thesis
    by (elim disjE)
      (use tw d ds assms(1,4,5,6) in \<open>auto simp: match_date_def is_sign_def Let_def\<close>)
qed

lemma match_date_encoding:
  assumes "is_millis m" "off = None \<or> (\<exists>s. off = Some s \<and> is_offset s)"
  shows "match_date (date_encoding m off) = Some (m, off)"
proof -
  from assms(1) obtain sg ds where m: "m = sg @ ds" "ds \<noteq> []" "list_all is_digit ds"
    "sg = [] \<or> sg = ''+'' \<or> sg = ''-''"
    by (rule is_millis_cases)
  from assms(2) show ?thesis
  proof
    assume "off = None"
    then show ?thesis using match_date_plain [OF m(2,3,4)] m(1) by (simp add: date_encoding_def)
  next
    assume "\<exists>s. off = Some s \<and> is_offset s"
    then obtain s where s: "off = Some s" "is_offset s" by blast
    from s(2) obtain c o4 where o: "s = c # o4" "is_sign c" "length o4 = 4" "list_all is_digit o4"
      by (rule is_offset_cases)
    show ?thesis
      using match_date_offset [OF m(2,3,4) o(2,3,4)] m(1) s(1) o(1) by (simp add: date_encoding_def)
  qed
qed

lemma parse_dotnet_date_in_range:
  assumes "match_date v = Some (m, off)" "0 < py_int m" "py_int m div 1000 \<le> max_seconds"
    "\<bar>offset_minutes off\<bar> < 1440" "py_int m div 1000 + 60 * offset_minutes off \<le> max_seconds"
  shows "parse_dotnet_date v =
     Inr (format_datetime (py_int m div 1000 + 60 * offset_minutes off)
          @ format_offset (offset_minutes off))"
  using assms
  by (cases off) (auto simp: parse_dotnet_date_def offset_minutes_def astimezone_iso_def Let_def)

lemma format_datetime_shape:
  "length (format_datetime t) = 19
   \<and> format_datetime t ! 4 = CHR ''-'' \<and> format_datetime t ! 7 = CHR ''-''
   \<and> format_datetime t ! 10 = CHR '' ''
   \<and> format_datetime t ! 13 = CHR '':'' \<and> format_datetime t ! 16 = CHR '':''"
  by (simp add: format_datetime_def pad2_def pad4_def Let_def split: prod.splits)

lemma format_offset_shape:
  "length (format_offset off) = 6 \<and> is_sign (hd (format_offset off))
   \<and> format_offset off ! 3 = CHR '':''"
  by (simp add: format_offset_def pad2_def is_sign_def)

text \<open>
  Claim C3, as the code has it. A string that does not match the pattern passes
  through unchanged, and a match whose milliseconds are at most 0 gives the empty
  string. Every string of the sentinel encoding matches, with the milliseconds and
  the offset as its groups. For a match with positive milliseconds, an offset
  strictly below 24 hours, and both the instant and the local time within the years
  that \<open>datetime\<close> represents, the result is the local date and time in the zone of the
  embedded offset, or in UTC+5:30 without one, as the 19 characters
  \<open>YYYY-MM-DD HH:MM:SS\<close>, followed by the offset of that zone as the 6 characters
  \<open>+HH:MM\<close> or \<open>-HH:MM\<close>.
\<close>

theorem parse_dotnet_date_local_time:
  "(match_date v = None \<longrightarrow> parse_dotnet_date v = Inr v)
   \<and> (match_date v1 = Some (m1, off1) \<and> py_int m1 \<le> 0 \<longrightarrow> parse_dotnet_date v1 = Inr '''')
   \<and> (match_date v2 = Some (m2, off2) \<and> 0 < py_int m2 \<and> py_int m2 div 1000 \<le> max_seconds
        \<and> \<bar>offset_minutes off2\<bar> < 1440
        \<and> py_int m2 div 1000 + 60 * offset_minutes off2 \<le> max_seconds
        \<longrightarrow> parse_dotnet_date v2 =
              Inr (format_datetime (py_int m2 div 1000 + 60 * offset_minutes off2)
                   @ format_offset (offset_minutes off2)))
   \<and> (is_millis m3 \<and> (off3 = None \<or> (\<exists>s. off3 = Some s \<and> is_offset s))
        \<longrightarrow> match_date (date_encoding m3 off3) = Some (m3, off3))
   \<and> offset_minutes None = 330
   \<and> length (format_datetime t) = 19
   \<and> format_datetime t ! 4 = CHR ''-'' \<and> format_datetime t ! 7 = CHR ''-''
   \<and> format_datetime t ! 10 = CHR '' ''
   \<and> format_datetime t ! 13 = CHR '':'' \<and> format_datetime t ! 16 = CHR '':''
   \<and> length (format_offset off) = 6 \<and> is_sign (hd (format_offset off))
   \<and> format_offset off ! 3 = CHR '':''
   \<and> parse_dotnet_date ''/Date(1700000000000+0530)/'' = Inr ''2023-11-15 03:43:20+05:30''
   \<and> parse_dotnet_date ''/Date(-1)/'' = Inr ''''"
proof -
  have e1: "parse_dotnet_date ''/Date(1700000000000+0530)/'' = Inr ''2023-11-15 03:43:20+05:30''"
    by code_simp
  have e2: "parse_dotnet_date ''/Date(-1)/'' = Inr ''''"
    by code_simp
  have a: "match_date v = None \<longrightarrow> parse_dotnet_date v = Inr v"
    by (simp add: parse_dotnet_date_def)
  have b: "match_date v1 = Some (m1, off1) \<and> py_int m1 \<le> 0 \<longrightarrow> parse_dotnet_date v1 = Inr ''''"
    by (simp add: parse_dotnet_date_def)
  show ?thesis
    using a b e1 e2 parse_dotnet_date_in_range [of v2 m2 off2] match_date_encoding [of m3 off3]
      format_datetime_shape [of t] format_offset_shape [of off]
    by (simp add: offset_minutes_def)
qed

theorem parse_dotnet_date_local_time_witness:
  "match_date ''plain text'' = None \<and> parse_dotnet_date ''plain text'' = Inr ''plain text''
   \<and> match_date ''/Date(-1)/'' = Some (''-1'', None) \<and> py_int ''-1'' \<le> 0
   \<and> match_date ''/Date(1700000000000)/'' = Some (''1700000000000'', None)
   \<and> 0 < py_int ''1700000000000'' \<and> py_int ''1700000000000'' div 1000 \<le> max_seconds
   \<and> \<bar>offset_minutes None\<bar> < 1440
   \<and> py_int ''1700000000000'' div 1000 + 60 * offset_minutes None \<le> max_seconds
   \<and> parse_dotnet_date ''/Date(1700000000000)/'' = Inr ''2023-11-15 03:43:20+05:30''
   \<and> is_millis ''1700000000000'' \<and> is_offset ''+0530''
   \<and> match_date (date_encoding ''1700000000000'' (Some ''+0530''))
       = Some (''1700000000000'', Some ''+0530'')"
proof -
  have h: "match_date ''plain text'' = None"
    "match_date ''/Date(-1)/'' = Some (''-1'', None)" "py_int ''-1'' \<le> 0"
    "match_date ''/Date(1700000000000)/'' = Some (''1700000000000'', None)"
    "0 < py_int ''1700000000000''" "py_int ''1700000000000'' div 1000 \<le> max_seconds"
    "\<bar>offset_minutes None\<bar> < 1440"
    "py_int ''1700000000000'' div 1000 + 60 * offset_minutes None \<le> max_seconds"
    "is_millis ''1700000000000''" "is_offset ''+0530''"
    by code_simp+
  have f: "format_datetime (py_int ''1700000000000'' div 1000 + 60 * offset_minutes None)
          @ format_offset (offset_minutes None) = ''2023-11-15 03:43:20+05:30''"
    by code_simp
  note T = parse_dotnet_date_local_time [where v = "''plain text''" and ?v1.0 = "''/Date(-1)/''"
        and ?m1.0 = "''-1''" and ?off1.0 = None and ?v2.0 = "''/Date(1700000000000)/''"
        and ?m2.0 = "''1700000000000''" and ?off2.0 = None
        and ?m3.0 = "''1700000000000''" and ?off3.0 = "Some ''+0530''" and t = 0 and off = 0]
  have c1: "parse_dotnet_date ''plain text'' = Inr ''plain text''"
    using T h(1) by blast
  have c2: "parse_dotnet_date ''/Date(1700000000000)/'' =
      Inr (format_datetime (py_int ''1700000000000'' div 1000 + 60 * offset_minutes None)
           @ format_offset (offset_minutes None))"
    using T h(4-8) by blast
  have c3: "match_date (date_encoding ''1700000000000'' (Some ''+0530''))
       = Some (''1700000000000'', Some ''+0530'')"
    using T h(9,10) by blast
  show ?thesis
    using c1 c2 c3 h by (simp only: f)
qed

text \<open>
  The claim as written fails in two ways. The result carries the zone offset after
  the seconds, so it is not of the form \<open>YYYY-MM-DD HH:MM:SS\<close>. And a match can make
  \<open>datetime\<close> raise instead of being rewritten: an instant after the year 9999, or
  an offset of 24 hours or more.
\<close>

theorem parse_dotnet_date_counterexample:
  "match_date ''/Date(1700000000000+0530)/'' = Some (''1700000000000'', Some ''+0530'')
   \<and> parse_dotnet_date ''/Date(1700000000000+0530)/'' = Inr ''2023-11-15 03:43:20+05:30''
   \<and> length ''2023-11-15 03:43:20+05:30'' = 25
   \<and> match_date ''/Date(253402300800000)/'' = Some (''253402300800000'', None)
   \<and> parse_dotnet_date ''/Date(253402300800000)/'' = Inl DateRangeError
   \<and> match_date ''/Date(1700000000000+2400)/'' = Some (''1700000000000'', Some ''+2400'')
   \<and> parse_dotnet_date ''/Date(1700000000000+2400)/'' = Inl ValueError"
  by code_simp

subsection \<open>The freshness cache\<close>


lemma live_entry_None:
  "live_entry e w now key force = None \<longleftrightarrow>
     force \<or> CACHE w key = None \<or> (\<exists>entry. CACHE w key = Some entry \<and> \<not> is_live e now entry)"
  by (auto simp: live_entry_def is_live_def split: option.splits)



lemma fetch_source_cache: "CACHE (snd (fetch_source e w now source symbol expiry force)) = CACHE w"
  by (simp add: fetch_source_def)


lemma get_cached_rows_miss_result:
  assumes "live_entry e w now (cache_key e source symbol expiry step alls) force = None"
    "get_cached_rows e w now source symbol expiry step alls force = (Inr (rows, t), w')"
  shows "t = now
     \<and> CACHE w' = (CACHE w)(cache_key e source symbol expiry step alls
                              \<mapsto> \<lparr>cached_rows = rows, fetched_at = now\<rparr>)"
  using assms fetch_source_cache [of e w now source symbol expiry force]
  by (auto simp: get_cached_rows_def Let_def split: prod.splits sum.splits if_splits)

lemma get_cached_rows_miss_error:
  assumes "live_entry e w now (cache_key e source symbol expiry step alls) force = None"
    "get_cached_rows e w now source symbol expiry step alls force = (Inl err, w')"
  shows "CACHE w' = CACHE w"
  using assms fetch_source_cache [of e w now source symbol expiry force]
  by (auto simp: get_cached_rows_def Let_def split: prod.splits sum.splits if_splits)



lemma gold_first_call:
  "get_cached_rows example_env empty_world 1000 ''mcx'' ''GOLD'' None (Fin 5000) False False
     = (Inr (gold_rows, 1000), gold_world)"
proof -
  have "fst (get_cached_rows example_env empty_world 1000 ''mcx'' ''GOLD'' None (Fin 5000) False False)
      = Inr (gold_rows, 1000)"
    by code_simp
  then show ?thesis by (simp add: gold_world_def prod_eq_iff)
qed


subsection \<open>Rows on their way into the cache\<close>

lemma round_half_even_of_int [simp]: "round_half_even (of_int k) = k"
  by (simp add: round_half_even_def)























subsection \<open>Hits, misses and failures\<close>




text \<open>
  Claim C10. When the upstream fetch of a miss or of a forced refresh raises, the
  call raises the same error and the whole cache, the entry under the key
  included, is as it was before the call.
\<close>

theorem fetch_error_keeps_cache:
  "(force \<or> CACHE w (cache_key e source symbol expiry step alls) = None
      \<or> (\<exists>old. CACHE w (cache_key e source symbol expiry step alls) = Some old \<and> \<not> is_live e now old))
   \<and> (source = ''mcx'' \<and> fetch_mcx_option_chain e (fetch_log w) now symbol expiry = Inl err
       \<or> source = ''nse'' \<and> fetch_nse_option_chain e (fetch_log w) now symbol expiry force = Inl err)
   \<longrightarrow> fst (get_cached_rows e w now source symbol expiry step alls force) = Inl err
       \<and> CACHE (snd (get_cached_rows e w now source symbol expiry step alls force)) = CACHE w"
proof (intro impI, elim conjE)
  assume "force \<or> CACHE w (cache_key e source symbol expiry step alls) = None
      \<or> (\<exists>old. CACHE w (cache_key e source symbol expiry step alls) = Some old \<and> \<not> is_live e now old)"
  then have miss: "live_entry e w now (cache_key e source symbol expiry step alls) force = None"
    by (simp add: live_entry_None)
  assume "source = ''mcx'' \<and> fetch_mcx_option_chain e (fetch_log w) now symbol expiry = Inl err
       \<or> source = ''nse'' \<and> fetch_nse_option_chain e (fetch_log w) now symbol expiry force = Inl err"
  then have f: "fst (fetch_source e w now source symbol expiry force) = Inl err"
    by (auto simp: fetch_source_def)
  obtain r0 w1 where fs: "fetch_source e w now source symbol expiry force = (r0, w1)"
    by (cases "fetch_source e w now source symbol expiry force")
  have g: "get_cached_rows e w now source symbol expiry step alls force = (Inl err, w1)"
    using miss fs f by (simp add: get_cached_rows_def)
  show "fst (get_cached_rows e w now source symbol expiry step alls force) = Inl err
       \<and> CACHE (snd (get_cached_rows e w now source symbol expiry step alls force)) = CACHE w"
    using g get_cached_rows_miss_error [OF miss g] by simp
qed

theorem fetch_error_keeps_cache_witness:
  "fetch_mcx_option_chain example_env (fetch_log gold_world) 6000 ''GOLD'' None = Inl (UpstreamError 503)
   \<and> fst (get_cached_rows example_env gold_world 6000 ''mcx'' ''GOLD'' None (Fin 5000) False True)
       = Inl (UpstreamError 503)
   \<and> CACHE (snd (get_cached_rows example_env gold_world 6000 ''mcx'' ''GOLD'' None (Fin 5000) False True))
       = CACHE gold_world
   \<and> CACHE gold_world gold_key = Some \<lparr>cached_rows = gold_rows, fetched_at = 1000\<rparr>"
proof -
  have f: "fetch_mcx_option_chain example_env (fetch_log gold_world) 6000 ''GOLD'' None
      = Inl (UpstreamError 503)"
    by (simp add: example_env_def)
  have stored: "CACHE gold_world gold_key = Some \<lparr>cached_rows = gold_rows, fetched_at = 1000\<rparr>"
    using get_cached_rows_miss_result [of example_env empty_world 1000 "''mcx''" "''GOLD''" None
        "Fin 5000" False False gold_rows 1000 gold_world] gold_first_call
    by (simp add: live_entry_def empty_world_def gold_key_def)
  show ?thesis
    using fetch_error_keeps_cache [where e = example_env and w = gold_world and now = 6000
        and source = "''mcx''" and symbol = "''GOLD''" and expiry = None and step = "Fin 5000"
        and alls = False and force = True and err = "UpstreamError 503"] f stored
    by simp
qed

subsection \<open>Canonical derived fields\<close>







end
